theory Spec2Isabelle
  imports Main "HOL-Library.AList"
begin

section \<open>JavaScript values\<close>

text \<open>
  The resolver of \<^verbatim>\<open>config/index.js\<close> is dynamically typed: a setting can end up as a
  string, a number, a boolean or \<^verbatim>\<open>undefined\<close>, depending on which branch of a fallback
  chain produced it. The values are therefore modelled as JavaScript values, with
  JavaScript's truthiness, and not as the types the settings are meant to have.

  A Number is \<open>NaN\<close> or \<open>Finite n\<close> for an integer \<open>n\<close>: the only numbers the resolver
  computes are the literals \<^verbatim>\<open>3000\<close> and \<^verbatim>\<open>31536000\<close>, the platform's port and the result of
  \<^verbatim>\<open>parseInt\<close>. \<open>Finite n\<close> stands for the double nearest to \<open>n\<close> (which is \<open>n\<close> itself up to
  \<open>2 ^ 53\<close>); negative zero is not distinguished from zero.
\<close>

datatype number = NaN | Finite int

datatype primitive =
    JSUndefined
  | JSNull
  | JSBoolean bool
  | JSNumber number
  | JSString string

text \<open>ToBoolean, as the conditional operator, \<^verbatim>\<open>&&\<close> and \<^verbatim>\<open>if\<close> apply it.\<close>

fun truthy :: "primitive \<Rightarrow> bool" where
  "truthy JSUndefined = False"
| "truthy JSNull = False"
| "truthy (JSBoolean b) = b"
| "truthy (JSNumber NaN) = False"
| "truthy (JSNumber (Finite n)) = (n \<noteq> 0)"
| "truthy (JSString s) = (s \<noteq> [])"

text \<open>\<^verbatim>\<open>a && b\<close>: the left operand when it is falsy, the right operand otherwise.\<close>

definition js_and :: "primitive \<Rightarrow> primitive \<Rightarrow> primitive" where
  "js_and a b = (if truthy a then b else a)"

text \<open>\<^verbatim>\<open>a === 'literal'\<close>, a boolean: no conversion takes place.\<close>

definition strict_equals :: "primitive \<Rightarrow> primitive \<Rightarrow> primitive" where
  "strict_equals a b =
     JSBoolean (a = b \<and> a \<noteq> JSNumber NaN)"

text \<open>
  The decimal digits of a natural number, and ToString on primitives as a template
  literal applies it. For a number it is the decimal expansion, which is what
  \<^verbatim>\<open>Number.prototype.toString\<close> gives for integers of magnitude below \<open>10 ^ 21\<close>.
\<close>

definition digit_char :: "nat \<Rightarrow> char" where
  "digit_char d = ''0123456789'' ! d"

function decimal :: "nat \<Rightarrow> string" where
  "decimal n = (if n < 10 then [digit_char n] else decimal (n div 10) @ [digit_char (n mod 10)])"
  by pat_completeness auto
termination
  by (relation "measure id") auto

fun to_string :: "primitive \<Rightarrow> string" where
  "to_string JSUndefined = ''undefined''"
| "to_string JSNull = ''null''"
| "to_string (JSBoolean b) = (if b then ''true'' else ''false'')"
| "to_string (JSNumber NaN) = ''NaN''"
| "to_string (JSNumber (Finite n)) =
     (if n < 0 then CHR ''-'' # decimal (nat (- n)) else decimal (nat n))"
| "to_string (JSString s) = s"

section \<open>\<^verbatim>\<open>parseInt\<close> with one argument\<close>

text \<open>
  \<^verbatim>\<open>parseInt(string)\<close> of ECMAScript, with the radix left out: leading white space is
  dropped, then an optional sign, then an optional \<^verbatim>\<open>0x\<close> or \<^verbatim>\<open>0X\<close> (which selects radix 16;
  the radix is 10 otherwise); the longest run of digits of that radix is the number, and
  what follows it is ignored. With no digit at all the result is \<^verbatim>\<open>NaN\<close>. Characters are
  the 8-bit \<^typ>\<open>char\<close>, so the white space is that of Latin-1.
\<close>

definition is_white_space :: "char \<Rightarrow> bool" where
  "is_white_space c =
     (c \<in> set [CHR 0x09, CHR 0x0A, CHR 0x0B, CHR 0x0C, CHR 0x0D, CHR 0x20, CHR 0xA0])"

definition digit_value :: "char \<Rightarrow> nat option" where
  "digit_value c =
     (let k = (of_char c :: nat) in
      if 48 \<le> k \<and> k \<le> 57 then Some (k - 48)
      else if 97 \<le> k \<and> k \<le> 122 then Some (k - 87)
      else if 65 \<le> k \<and> k \<le> 90 then Some (k - 55)
      else None)"

definition is_radix_digit :: "nat \<Rightarrow> char \<Rightarrow> bool" where
  "is_radix_digit r c = (case digit_value c of None \<Rightarrow> False | Some d \<Rightarrow> d < r)"

definition radix_value :: "nat \<Rightarrow> string \<Rightarrow> nat" where
  "radix_value r z =
     foldl (\<lambda>a c. a * r + (case digit_value c of None \<Rightarrow> 0 | Some d \<Rightarrow> d)) 0 z"

fun strip_sign :: "string \<Rightarrow> int \<times> string" where
  "strip_sign [] = (1, [])"
| "strip_sign (c # s) =
     (if c = CHR ''-'' then (- 1, s) else if c = CHR ''+'' then (1, s) else (1, c # s))"

fun strip_prefix :: "string \<Rightarrow> nat \<times> string" where
  "strip_prefix (a # b # s) =
     (if a = CHR ''0'' \<and> (b = CHR ''x'' \<or> b = CHR ''X'') then (16, s) else (10, a # b # s))"
| "strip_prefix s = (10, s)"

definition leading_integer :: "string \<Rightarrow> int option" where
  "leading_integer s =
     (let (sign, s2) = strip_sign (dropWhile is_white_space s);
          (r, s3) = strip_prefix s2;
          z = takeWhile (is_radix_digit r) s3
      in if z = [] then None else Some (sign * int (radix_value r z)))"

definition parseInt :: "string \<Rightarrow> number" where
  "parseInt s = (case leading_integer s of None \<Rightarrow> NaN | Some n \<Rightarrow> Finite n)"

section \<open>Regular expressions\<close>

text \<open>
  The fragment of regular-expression syntax that the literal \<^verbatim>\<open>/(1\.0)(\.\d)?/\<close> uses: a
  literal character, \<^verbatim>\<open>\d\<close> (an ASCII digit), concatenation, a greedy \<^verbatim>\<open>?\<close> and a group.
  \<open>rmatch r s\<close> lists, in the order a backtracking matcher tries them, what is left of \<open>s\<close>
  after a match of \<open>r\<close> at its start. \<open>regex_test\<close> is \<^verbatim>\<open>RegExp.prototype.test\<close> for a
  pattern with no flags: the pattern is tried at index 0, then 1, and so on.
\<close>

datatype regex =
    RLit char
  | RDigit
  | RSeq regex regex
  | ROpt regex
  | RGroup regex

definition is_digit :: "char \<Rightarrow> bool" where
  "is_digit c = (let k = (of_char c :: nat) in 48 \<le> k \<and> k \<le> 57)"

fun rmatch :: "regex \<Rightarrow> string \<Rightarrow> string list" where
  "rmatch (RLit c) s = (case s of [] \<Rightarrow> [] | x # xs \<Rightarrow> if x = c then [xs] else [])"
| "rmatch RDigit s = (case s of [] \<Rightarrow> [] | x # xs \<Rightarrow> if is_digit x then [xs] else [])"
| "rmatch (RSeq a b) s = concat (map (rmatch b) (rmatch a s))"
| "rmatch (ROpt a) s = rmatch a s @ [s]"
| "rmatch (RGroup a) s = rmatch a s"

fun regex_test :: "regex \<Rightarrow> string \<Rightarrow> bool" where
  "regex_test r [] = (rmatch r [] \<noteq> [])"
| "regex_test r (c # s) = (if rmatch r (c # s) = [] then regex_test r s else True)"

section \<open>Documents read from disk\<close>

text \<open>
  What \<^verbatim>\<open>jsonfile.readFileSync\<close> returns: a parsed JSON text. The resolver never looks
  inside a document, so a number is kept as the text that wrote it. An array carries,
  besides its elements, the named properties assigned to it after parsing (none when it
  is read); an object lists its properties in insertion order.
\<close>

datatype json =
    JsonNull
  | JsonBoolean bool
  | JsonNumber string
  | JsonString string
  | JsonArray "json list" "(string \<times> json) list"
  | JsonObject "(string \<times> json) list"

datatype error =
    TypeError
  | ReadError string

text \<open>
  \<^verbatim>\<open>doc.host = h\<close> in a module that is not in strict mode: on \<^verbatim>\<open>null\<close> it throws a
  TypeError; on an object or an array it sets the property (in place when it is there,
  as the last property otherwise); on any other primitive it does nothing.
\<close>

fun assign_host :: "json \<Rightarrow> string \<Rightarrow> error + json" where
  "assign_host JsonNull h = Inl TypeError"
| "assign_host (JsonObject props) h = Inr (JsonObject (AList.update ''host'' (JsonString h) props))"
| "assign_host (JsonArray xs props) h =
     Inr (JsonArray xs (AList.update ''host'' (JsonString h) props))"
| "assign_host (JsonBoolean b) h = Inr (JsonBoolean b)"
| "assign_host (JsonNumber n) h = Inr (JsonNumber n)"
| "assign_host (JsonString s) h = Inr (JsonString s)"

section \<open>The process, the platform and the file system\<close>

text \<open>
  \<^verbatim>\<open>process.env\<close> maps the names of the variables that are set to strings; reading a
  variable that is not set gives \<^verbatim>\<open>undefined\<close>.
\<close>

type_synonym environment = "string \<rightharpoonup> string"

definition env_var :: "environment \<Rightarrow> string \<Rightarrow> primitive" where
  "env_var pe name = (case pe name of None \<Rightarrow> JSUndefined | Some v \<Rightarrow> JSString v)"

text \<open>
  The object \<^verbatim>\<open>cfenv.getAppEnv()\<close> returns, as far as the resolver reads it. \<open>uri\<close> and
  \<open>port\<close> are \<^verbatim>\<open>undefined\<close> when the platform supplies none; \<open>app_uris\<close> is
  \<^verbatim>\<open>app.uris\<close>, an array of strings when present. \<open>getServiceCreds\<close> gives \<^verbatim>\<open>null\<close>
  (here \<open>None\<close>) for a name that no bound service has, and the credentials of the service
  otherwise.
\<close>

record credentials =
  uri :: primitive

record platform_binding =
  isLocal :: bool
  port :: primitive
  app_uris :: "string list option"
  getServiceCreds :: "string \<Rightarrow> credentials option"

text \<open>
  Everything outside the module that one call of the resolver reads or writes:
  \<^item> \<open>process_env\<close>, the process-wide variable table (the only part that is written);
  \<^item> \<open>appEnv\<close>, the snapshot \<^verbatim>\<open>cfenv.getAppEnv()\<close> returns;
  \<^item> \<open>dotenv_file\<close>, the variables the \<^verbatim>\<open>.env\<close> file defines, as \<^verbatim>\<open>dotenv\<close> parses them
    (\<open>None\<close> when there is no such file, which \<^verbatim>\<open>dotenv.config\<close> reports in its result
    and the resolver ignores);
  \<^item> \<open>json_files\<close>, the JSON documents on disk by path (\<open>None\<close> where
    \<^verbatim>\<open>jsonfile.readFileSync\<close> throws: no file, or no JSON in it);
  \<^item> \<open>project_dir\<close>, the value of \<^verbatim>\<open>path.dirname(__dirname)\<close>: a normalised absolute
    directory other than the root, so that \<^verbatim>\<open>path.join\<close> only has to put a separator
    between its arguments.
\<close>

record world =
  process_env :: environment
  appEnv :: platform_binding
  dotenv_file :: "(string \<times> string) list option"
  json_files :: "string \<Rightarrow> json option"
  project_dir :: string

definition path_join :: "string \<Rightarrow> string \<Rightarrow> string" where
  "path_join dir rel =
     dir @ ''/'' @ (case rel of a # b # r \<Rightarrow> if [a, b] = ''./'' then r else rel | _ \<Rightarrow> rel)"

text \<open>
  \<^verbatim>\<open>dotenv.config\<close>: every variable of the file that the process does not have yet is
  added to \<^verbatim>\<open>process.env\<close>; a variable that is already set keeps its value.
\<close>

definition dotenv_set :: "environment \<Rightarrow> string \<times> string \<Rightarrow> environment" where
  "dotenv_set pe kv = (case pe (fst kv) of None \<Rightarrow> pe(fst kv \<mapsto> snd kv) | Some _ \<Rightarrow> pe)"

definition dotenv_config :: "world \<Rightarrow> world" where
  "dotenv_config w =
     (case dotenv_file w of
        None \<Rightarrow> w
      | Some kvs \<Rightarrow> w\<lparr>process_env := foldl dotenv_set (process_env w) kvs\<rparr>)"

definition readFileSync :: "world \<Rightarrow> string \<Rightarrow> error + json" where
  "readFileSync w p = (case json_files w p of None \<Rightarrow> Inl (ReadError p) | Some j \<Rightarrow> Inr j)"

section \<open>The resolver\<close>

text \<open>
  A property of the configuration object holds a primitive, an array of strings, a
  regular expression or a document. \<open>defined\<close> is "neither \<^verbatim>\<open>undefined\<close> nor \<^verbatim>\<open>null\<close>".
\<close>

datatype jsvalue =
    Primitive primitive
  | StringArray "string list"
  | RegExp regex
  | Document json


record config =
  prod_envs :: jsvalue
  isProd :: jsvalue
  LOGGER_LEVEL :: jsvalue
  TERM_TYPES_TO_SEARCH :: jsvalue
  VALID_QUERY_PARAMS :: jsvalue
  UPDATE_REPO_REGEX :: jsvalue
  USE_HSTS :: jsvalue
  HSTS_MAX_AGE :: jsvalue
  HSTS_PRELOAD :: jsvalue
  HSTS_SUBDOMAINS :: jsvalue
  PORT :: jsvalue
  GET_REMOTE_METADATA :: jsvalue
  ES_HOST :: jsvalue
  AGENCY_ENDPOINTS_FILE :: jsvalue
  SWAGGER_DOCUMENT :: jsvalue
  ALLOWED_DOMAINS :: jsvalue

text \<open>
  \<^verbatim>\<open>getElasticsearchUri\<close>. Away from the local machine the credentials of the service are
  looked up and their \<^verbatim>\<open>uri\<close> is read; when the lookup gave \<^verbatim>\<open>null\<close>, reading the
  property throws a TypeError.
\<close>

definition getElasticsearchUri :: "platform_binding \<Rightarrow> environment \<Rightarrow> error + primitive" where
  "getElasticsearchUri cloudFoundryEnv pe =
     (if \<not> isLocal cloudFoundryEnv then
        (let serviceName =
               (if truthy (env_var pe ''ELASTICSEARCH_SERVICE_NAME'')
                then to_string (env_var pe ''ELASTICSEARCH_SERVICE_NAME'')
                else ''code_gov_elasticsearch'')
         in case getServiceCreds cloudFoundryEnv serviceName of
              None \<Rightarrow> Inl TypeError
            | Some elasticSearchCredentials \<Rightarrow>
                Inr (if truthy (uri elasticSearchCredentials)
                     then uri elasticSearchCredentials
                     else JSString ''http://localhost:9200''))
      else Inr (if truthy (env_var pe ''ES_URI'')
                then env_var pe ''ES_URI''
                else JSString ''http://localhost:9200''))"

text \<open>\<^verbatim>\<open>getPort\<close>: the variable as it stands (a string), else the platform's port, else 3000.\<close>

definition getPort :: "platform_binding \<Rightarrow> environment \<Rightarrow> primitive" where
  "getPort cloudFoundryEnv pe =
     (if truthy (env_var pe ''PORT'') then env_var pe ''PORT''
      else if truthy (port cloudFoundryEnv) then port cloudFoundryEnv
      else JSNumber (Finite 3000))"

text \<open>
  \<^verbatim>\<open>getAppFilesDirectories\<close>: the value of the one property, \<^verbatim>\<open>AGENCY_ENDPOINTS_FILE\<close>, of
  the object it returns (which \<^verbatim>\<open>Object.assign\<close> then copies into the configuration).
\<close>

definition getAppFilesDirectories :: "string \<Rightarrow> environment \<Rightarrow> primitive" where
  "getAppFilesDirectories dir pe =
     (if truthy (js_and (env_var pe ''GET_REMOTE_METADATA'') (env_var pe ''REMOTE_METADATA_LOCATION''))
      then env_var pe ''REMOTE_METADATA_LOCATION''
      else if truthy (strict_equals (env_var pe ''NODE_ENV'') (JSString ''testing''))
      then JSString (path_join dir ''config/testing_agency_metadata.json'')
      else JSString (path_join dir ''config/agency_metadata.json''))"

text \<open>
  \<^verbatim>\<open>getSwaggerConf\<close>: the document of the variant is read (which may throw), and its
  \<^verbatim>\<open>host\<close> is overwritten.
\<close>

definition getSwaggerConf :: "world \<Rightarrow> primitive \<Rightarrow> string \<Rightarrow> error + json" where
  "getSwaggerConf w isProd' apiUrl =
     (case (if truthy isProd'
            then readFileSync w (path_join (project_dir w) ''./swagger-prod.json'')
            else readFileSync w (path_join (project_dir w) ''./swagger.json'')) of
        Inl e \<Rightarrow> Inl e
      | Inr SWAGGER_DOCUMENT' \<Rightarrow>
          assign_host SWAGGER_DOCUMENT' (if apiUrl \<noteq> [] then apiUrl else ''api.code.gov''))"

definition update_repo_regex :: regex where
  "update_repo_regex =
     RSeq (RGroup (RSeq (RLit (CHR ''1'')) (RSeq (RLit (CHR ''.'')) (RLit (CHR ''0'')))))
          (ROpt (RGroup (RSeq (RLit (CHR ''.'')) RDigit)))"

text \<open>
  \<^verbatim>\<open>apiUrl\<close> of \<^verbatim>\<open>getConfig\<close>, a string in each of its three branches. \<^verbatim>\<open>app.uris[0]\<close> of an
  empty array is \<^verbatim>\<open>undefined\<close>, which the template literal prints.
\<close>

definition apiUrl_of :: "platform_binding \<Rightarrow> environment \<Rightarrow> primitive \<Rightarrow> string" where
  "apiUrl_of cloudFoundryEnv pe port' =
     (if truthy (env_var pe ''API_URL'') then to_string (env_var pe ''API_URL'')
      else case app_uris cloudFoundryEnv of
             Some uris \<Rightarrow>
               to_string (case uris of [] \<Rightarrow> JSUndefined | u # _ \<Rightarrow> JSString u) @ ''/api''
           | None \<Rightarrow> ''0.0.0.0:'' @ to_string port')"

text \<open>
  \<^verbatim>\<open>getConfig\<close>. The argument is \<open>None\<close> when the caller passes none (or \<^verbatim>\<open>undefined\<close>), and
  the parameter's default applies. The result is the configuration, or the error thrown
  in its place, together with the world the call leaves behind (the variables of the
  \<^verbatim>\<open>.env\<close> file stay in \<^verbatim>\<open>process.env\<close> also when a later statement throws). The statements
  run in the order of the source; the two that can throw are the call of
  \<^verbatim>\<open>getElasticsearchUri\<close> and, after it, the call of \<^verbatim>\<open>getSwaggerConf\<close>.
\<close>

definition getConfig :: "string option \<Rightarrow> world \<Rightarrow> (error + config) \<times> world" where
  "getConfig arg w =
     (let env = (case arg of None \<Rightarrow> ''development'' | Some e \<Rightarrow> e);
          prod_envs' = [''prod'', ''production''];
          cloudFoundryEnv = appEnv w;
          isProd' = JSBoolean (env \<in> set prod_envs');
          w1 = (if isLocal cloudFoundryEnv then dotenv_config w else w);
          pe = process_env w1;
          LOGGER_LEVEL' =
            (if truthy (env_var pe ''LOGGER_LEVEL'') then env_var pe ''LOGGER_LEVEL''
             else if truthy isProd' then JSString ''INFO'' else JSString ''DEBUG'');
          USE_HSTS' =
            (if truthy (env_var pe ''USE_HSTS'')
             then strict_equals (env_var pe ''USE_HSTS'') (JSString ''true'')
             else isProd');
          HSTS_MAX_AGE' =
            (if truthy (env_var pe ''HSTS_MAX_AGE'')
             then JSNumber (parseInt (to_string (env_var pe ''HSTS_MAX_AGE'')))
             else JSNumber (Finite 31536000));
          HSTS_PRELOAD' =
            js_and (env_var pe ''HSTS_PRELOAD'')
              (strict_equals (env_var pe ''HSTS_PRELOAD'') (JSString ''true''));
          HSTS_SUBDOMAINS' =
            js_and (env_var pe ''HSTS_SUBDOMAINS'')
              (strict_equals (env_var pe ''HSTS_SUBDOMAINS'') (JSString ''true''));
          PORT' = getPort cloudFoundryEnv pe;
          GET_REMOTE_METADATA' =
            js_and (env_var pe ''GET_REMOTE_METADATA'')
              (strict_equals (env_var pe ''GET_REMOTE_METADATA'') (JSString ''true''))
      in case getElasticsearchUri cloudFoundryEnv pe of
           Inl e \<Rightarrow> (Inl e, w1)
         | Inr ES_HOST' \<Rightarrow>
             (let AGENCY_ENDPOINTS_FILE' = getAppFilesDirectories (project_dir w1) pe;
                  apiUrl = apiUrl_of cloudFoundryEnv pe PORT'
              in case getSwaggerConf w1 isProd' apiUrl of
                   Inl e \<Rightarrow> (Inl e, w1)
                 | Inr SWAGGER_DOCUMENT' \<Rightarrow>
                     (Inr \<lparr> prod_envs = StringArray prod_envs',
                            isProd = Primitive isProd',
                            LOGGER_LEVEL = Primitive LOGGER_LEVEL',
                            TERM_TYPES_TO_SEARCH =
                              StringArray [''name'', ''agency.name'', ''agency.acronym'', ''tags'',
                                ''languages''],
                            VALID_QUERY_PARAMS =
                              StringArray [''license'', ''name'', ''agency.name'',
                                ''permissions.usageType'', ''agency.acronym'', ''status'', ''vcs'',
                                ''measurementType.method'', ''language'', ''created'',
                                ''lastModified'', ''metadataLastUpdated''],
                            UPDATE_REPO_REGEX = RegExp update_repo_regex,
                            USE_HSTS = Primitive USE_HSTS',
                            HSTS_MAX_AGE = Primitive HSTS_MAX_AGE',
                            HSTS_PRELOAD = Primitive HSTS_PRELOAD',
                            HSTS_SUBDOMAINS = Primitive HSTS_SUBDOMAINS',
                            PORT = Primitive PORT',
                            GET_REMOTE_METADATA = Primitive GET_REMOTE_METADATA',
                            ES_HOST = Primitive ES_HOST',
                            AGENCY_ENDPOINTS_FILE = Primitive AGENCY_ENDPOINTS_FILE',
                            SWAGGER_DOCUMENT = Document SWAGGER_DOCUMENT',
                            ALLOWED_DOMAINS =
                              StringArray [''http://localhost:'' @ to_string PORT',
                                ''http://127.0.0.1:'' @ to_string PORT',
                                if truthy isProd' then ''https://api.data.gov'' else ''*''] \<rparr>,
                      w1)))"

section \<open>Auxiliary notions\<close>

text \<open>
  The world as the rules of \<open>getConfig\<close> read it: in local mode, after the \<^verbatim>\<open>.env\<close> file has
  been loaded into the process environment.
\<close>

definition loaded :: "world \<Rightarrow> world" where
  "loaded w = (if isLocal (appEnv w) then dotenv_config w else w)"

text \<open>A field of the configuration a call returned, if it returned one.\<close>

definition resolved :: "(config \<Rightarrow> jsvalue) \<Rightarrow> (error + config) \<times> world \<Rightarrow> jsvalue option" where
  "resolved field r = (case fst r of Inl e \<Rightarrow> None | Inr c \<Rightarrow> Some (field c))"

text \<open>
  The reading of the version pattern in the specification, for comparison with the
  pattern of the source: \<^verbatim>\<open>major.minor\<close> with an optional \<^verbatim>\<open>.patch\<close>, the major
  component being 1, each other component a non-empty run of digits, and nothing before
  or after.
\<close>

definition spec_version_pattern :: "string \<Rightarrow> bool" where
  "spec_version_pattern s =
     (case s of
        a # b # r \<Rightarrow>
          a = CHR ''1'' \<and> b = CHR ''.'' \<and> takeWhile is_digit r \<noteq> [] \<and>
          (case dropWhile is_digit r of
             [] \<Rightarrow> True
           | d # patch \<Rightarrow> d = CHR ''.'' \<and> patch \<noteq> [] \<and> list_all is_digit patch)
      | _ \<Rightarrow> False)"

subsection \<open>Two deployments\<close>

text \<open>
  A project directory with both API documents in place; a developer's machine with a
  \<^verbatim>\<open>.env\<close> file; and a managed platform that assigns port 8080 and one public URI. Both
  take the process environment, the managed platform also its bound services.
\<close>

definition demo_files :: "string \<Rightarrow> json option" where
  "demo_files p =
     (if p = ''/srv/api/swagger.json''
      then Some (JsonObject [(''swagger'', JsonString ''2.0''), (''host'', JsonString ''localhost'')])
      else if p = ''/srv/api/swagger-prod.json''
      then Some (JsonObject [(''swagger'', JsonString ''2.0'')])
      else None)"

definition local_world :: "environment \<Rightarrow> world" where
  "local_world pe =
     \<lparr> process_env = pe,
       appEnv = \<lparr> isLocal = True, port = JSUndefined, app_uris = None,
                  getServiceCreds = (\<lambda>name. None) \<rparr>,
       dotenv_file = Some [(''LOGGER_LEVEL'', ''WARN''), (''NODE_ENV'', ''development'')],
       json_files = demo_files,
       project_dir = ''/srv/api'' \<rparr>"

definition managed_world :: "environment \<Rightarrow> (string \<Rightarrow> credentials option) \<Rightarrow> world" where
  "managed_world pe services =
     \<lparr> process_env = pe,
       appEnv = \<lparr> isLocal = False, port = JSNumber (Finite 8080),
                  app_uris = Some [''api.example.gov''], getServiceCreds = services \<rparr>,
       dotenv_file = None,
       json_files = demo_files,
       project_dir = ''/srv/api'' \<rparr>"

definition es_service :: "string \<Rightarrow> credentials option" where
  "es_service name =
     (if name = ''code_gov_elasticsearch''
      then Some \<lparr> uri = JSString ''http://es.internal:9200'' \<rparr>
      else None)"

definition no_service :: "string \<Rightarrow> credentials option" where
  "no_service name = None"

section \<open>Properties\<close>

subsection \<open>Evaluation and basic facts\<close>

lemmas run_defs =
  getConfig_def local_world_def managed_world_def es_service_def no_service_def Let_def
  dotenv_config_def dotenv_set_def env_var_def getElasticsearchUri_def getSwaggerConf_def
  readFileSync_def path_join_def demo_files_def getPort_def apiUrl_of_def js_and_def
  strict_equals_def getAppFilesDirectories_def digit_char_def resolved_def








subsection \<open>Loading the \<^verbatim>\<open>.env\<close> file\<close>

lemma foldl_dotenv_set:
  "foldl dotenv_set pe kvs = (\<lambda>k. case pe k of Some v \<Rightarrow> Some v | None \<Rightarrow> map_of kvs k)"
proof (induction kvs arbitrary: pe)
  case Nil
  show ?case by (simp add: fun_eq_iff split: option.splits)
next
  case (Cons kv kvs)
  have "foldl dotenv_set pe (kv # kvs) = foldl dotenv_set (dotenv_set pe kv) kvs"
    by simp
  also have "\<dots> = (\<lambda>k. case dotenv_set pe kv k of Some v \<Rightarrow> Some v | None \<Rightarrow> map_of kvs k)"
    by (rule Cons.IH)
  also have "\<dots> = (\<lambda>k. case pe k of Some v \<Rightarrow> Some v | None \<Rightarrow> map_of (kv # kvs) k)"
    by (cases kv) (auto simp: dotenv_set_def fun_eq_iff split: option.splits)
  finally show ?case .
qed

lemma foldl_dotenv_set_idem:
  "foldl dotenv_set (foldl dotenv_set pe kvs) kvs = foldl dotenv_set pe kvs"
  by (simp add: foldl_dotenv_set fun_eq_iff split: option.splits)

lemma dotenv_config_idem: "dotenv_config (dotenv_config w) = dotenv_config w"
  by (simp add: dotenv_config_def foldl_dotenv_set_idem split: option.splits)

lemma dotenv_config_frame:
  "appEnv (dotenv_config w) = appEnv w"
  "dotenv_file (dotenv_config w) = dotenv_file w"
  "json_files (dotenv_config w) = json_files w"
  "project_dir (dotenv_config w) = project_dir w"
  by (simp_all add: dotenv_config_def split: option.splits)

text \<open>A variable that the process has keeps its value; the file only adds variables.\<close>

lemma dotenv_config_keeps:
  "process_env w k = Some v \<Longrightarrow> process_env (dotenv_config w) k = Some v"
  by (simp add: dotenv_config_def foldl_dotenv_set split: option.splits)

lemma dotenv_config_adds:
  "process_env w k = None \<Longrightarrow> dotenv_file w = Some kvs \<Longrightarrow>
   process_env (dotenv_config w) k = map_of kvs k"
  by (simp add: dotenv_config_def foldl_dotenv_set)

lemma loaded_idem: "loaded (loaded w) = loaded w"
  by (simp add: loaded_def dotenv_config_idem dotenv_config_frame)

lemma loaded_frame:
  "appEnv (loaded w) = appEnv w"
  "dotenv_file (loaded w) = dotenv_file w"
  "json_files (loaded w) = json_files w"
  "project_dir (loaded w) = project_dir w"
  by (simp_all add: loaded_def dotenv_config_frame)

lemma loaded_not_local: "\<not> isLocal (appEnv w) \<Longrightarrow> loaded w = w"
  by (simp add: loaded_def)

lemma loaded_keeps: "process_env w k = Some v \<Longrightarrow> process_env (loaded w) k = Some v"
  by (simp add: loaded_def dotenv_config_keeps)

subsection \<open>What a call of \<open>getConfig\<close> leaves and returns\<close>

lemma getConfig_snd: "snd (getConfig arg w) = loaded w"
  unfolding getConfig_def Let_def loaded_def
  by (simp split: sum.split split del: if_split)

text \<open>
  The result depends on the world only through the platform binding and the world as
  loaded.
\<close>

lemma getConfig_depends:
  assumes a: "appEnv w = appEnv v"
    and b: "(if isLocal (appEnv v) then dotenv_config w else w) =
            (if isLocal (appEnv v) then dotenv_config v else v)"
  shows "getConfig arg w = getConfig arg v"
  unfolding getConfig_def Let_def a b by (rule refl)

lemma getConfig_loaded: "getConfig arg (loaded w) = getConfig arg w"
  by (rule getConfig_depends) (simp_all add: loaded_def dotenv_config_idem dotenv_config_frame)

lemma getConfig_fields:
  assumes "getConfig arg w = (Inr c, w')"
  shows "w' = loaded w"
    and "prod_envs c = StringArray [''prod'', ''production'']"
    and "isProd c = Primitive (JSBoolean (arg = Some ''prod'' \<or> arg = Some ''production''))"
    and "LOGGER_LEVEL c =
           Primitive (if truthy (env_var (process_env w') ''LOGGER_LEVEL'')
                      then env_var (process_env w') ''LOGGER_LEVEL''
                      else if arg = Some ''prod'' \<or> arg = Some ''production''
                      then JSString ''INFO'' else JSString ''DEBUG'')"
    and "TERM_TYPES_TO_SEARCH c =
           StringArray [''name'', ''agency.name'', ''agency.acronym'', ''tags'', ''languages'']"
    and "VALID_QUERY_PARAMS c =
           StringArray [''license'', ''name'', ''agency.name'', ''permissions.usageType'',
             ''agency.acronym'', ''status'', ''vcs'', ''measurementType.method'', ''language'',
             ''created'', ''lastModified'', ''metadataLastUpdated'']"
    and "UPDATE_REPO_REGEX c = RegExp update_repo_regex"
    and "USE_HSTS c =
           Primitive (if truthy (env_var (process_env w') ''USE_HSTS'')
                      then strict_equals (env_var (process_env w') ''USE_HSTS'') (JSString ''true'')
                      else JSBoolean (arg = Some ''prod'' \<or> arg = Some ''production''))"
    and "HSTS_MAX_AGE c =
           Primitive (if truthy (env_var (process_env w') ''HSTS_MAX_AGE'')
                      then JSNumber (parseInt (to_string (env_var (process_env w') ''HSTS_MAX_AGE'')))
                      else JSNumber (Finite 31536000))"
    and "HSTS_PRELOAD c =
           Primitive (js_and (env_var (process_env w') ''HSTS_PRELOAD'')
             (strict_equals (env_var (process_env w') ''HSTS_PRELOAD'') (JSString ''true'')))"
    and "HSTS_SUBDOMAINS c =
           Primitive (js_and (env_var (process_env w') ''HSTS_SUBDOMAINS'')
             (strict_equals (env_var (process_env w') ''HSTS_SUBDOMAINS'') (JSString ''true'')))"
    and "PORT c = Primitive (getPort (appEnv w) (process_env w'))"
    and "GET_REMOTE_METADATA c =
           Primitive (js_and (env_var (process_env w') ''GET_REMOTE_METADATA'')
             (strict_equals (env_var (process_env w') ''GET_REMOTE_METADATA'') (JSString ''true'')))"
    and "\<exists>es. getElasticsearchUri (appEnv w) (process_env w') = Inr es \<and> ES_HOST c = Primitive es"
    and "AGENCY_ENDPOINTS_FILE c =
           Primitive (getAppFilesDirectories (project_dir w) (process_env w'))"
    and "\<exists>doc. getSwaggerConf w' (JSBoolean (arg = Some ''prod'' \<or> arg = Some ''production''))
            (apiUrl_of (appEnv w) (process_env w') (getPort (appEnv w) (process_env w'))) = Inr doc
          \<and> SWAGGER_DOCUMENT c = Document doc"
    and "ALLOWED_DOMAINS c =
           StringArray [''http://localhost:'' @ to_string (getPort (appEnv w) (process_env w')),
             ''http://127.0.0.1:'' @ to_string (getPort (appEnv w) (process_env w')),
             if arg = Some ''prod'' \<or> arg = Some ''production''
             then ''https://api.data.gov'' else ''*'']"
  using assms unfolding getConfig_def Let_def loaded_def
  by (auto simp: if_distrib [of project_dir] dotenv_config_frame
      split: sum.splits option.splits split del: if_split cong: if_cong)

subsection \<open>The version pattern\<close>

lemma rmatch_update_repo_regex:
  "rmatch update_repo_regex s \<noteq> [] \<longleftrightarrow> (\<exists>q. s = ''1.0'' @ q)"
  by (auto simp: update_repo_regex_def split: list.splits)

lemma regex_test_update_repo_regex:
  "regex_test update_repo_regex s \<longleftrightarrow> (\<exists>p q. s = p @ ''1.0'' @ q)"
proof (induction s)
  case Nil
  show ?case using rmatch_update_repo_regex [of "[]"] by simp
next
  case (Cons c s)
  have "(\<exists>p q. c # s = p @ ''1.0'' @ q) \<longleftrightarrow>
        (\<exists>q. c # s = ''1.0'' @ q) \<or> (\<exists>p q. s = p @ ''1.0'' @ q)"
    (is "?L \<longleftrightarrow> ?A \<or> ?B")
  proof
    assume ?L
    then obtain p q where pq: "c # s = p @ ''1.0'' @ q" by blast
    show "?A \<or> ?B"
    proof (cases p)
      case Nil
      with pq show ?thesis by auto
    next
      case (Cons a p')
      with pq have "s = p' @ ''1.0'' @ q" by simp
      then show ?thesis by blast
    qed
  next
    assume "?A \<or> ?B"
    then show ?L
    proof
      assume ?A
      then obtain q where "c # s = [] @ ''1.0'' @ q" by auto
      then show ?L by blast
    next
      assume ?B
      then obtain p q where "s = p @ ''1.0'' @ q" by blast
      then have "c # s = (c # p) @ ''1.0'' @ q" by simp
      then show ?L by blast
    qed
  qed
  then show ?case
    using Cons.IH rmatch_update_repo_regex [of "c # s"] by auto
qed

subsection \<open>The port, the search endpoint and the metadata path\<close>

lemma getPort_cases:
  "pe ''PORT'' = Some s \<Longrightarrow> s \<noteq> [] \<Longrightarrow> getPort cf pe = JSString s"
  "pe ''PORT'' = None \<or> pe ''PORT'' = Some [] \<Longrightarrow> truthy (port cf) \<Longrightarrow> getPort cf pe = port cf"
  "pe ''PORT'' = None \<or> pe ''PORT'' = Some [] \<Longrightarrow> \<not> truthy (port cf) \<Longrightarrow>
     getPort cf pe = JSNumber (Finite 3000)"
  by (auto simp: getPort_def env_var_def)

lemma getElasticsearchUri_no_service:
  "\<not> isLocal cf \<Longrightarrow> getServiceCreds cf = no_service \<Longrightarrow> getElasticsearchUri cf pe = Inl TypeError"
  by (simp add: getElasticsearchUri_def no_service_def Let_def)

lemma getElasticsearchUri_local: "isLocal cf \<Longrightarrow> \<exists>es. getElasticsearchUri cf pe = Inr es"
  by (simp add: getElasticsearchUri_def)

text \<open>
  The metadata path: the remote location as soon as both variables are non-empty,
  whatever \<^verbatim>\<open>GET_REMOTE_METADATA\<close> says; otherwise one of the two local files.
\<close>

lemma getAppFilesDirectories_cases:
  "getAppFilesDirectories dir pe =
     (if (\<exists>g l. pe ''GET_REMOTE_METADATA'' = Some g \<and> g \<noteq> [] \<and>
                 pe ''REMOTE_METADATA_LOCATION'' = Some l \<and> l \<noteq> [])
      then JSString (the (pe ''REMOTE_METADATA_LOCATION''))
      else if pe ''NODE_ENV'' = Some ''testing''
      then JSString (path_join dir ''config/testing_agency_metadata.json'')
      else JSString (path_join dir ''config/agency_metadata.json''))"
  by (auto simp: getAppFilesDirectories_def js_and_def strict_equals_def env_var_def
      split: option.splits)

subsection \<open>When a call returns\<close>

text \<open>
  The two statements that can throw, and with them the whole call: the credentials
  lookup away from the local machine, and reading the API document.
\<close>

lemma getElasticsearchUri_returns_iff:
  "(\<exists>es. getElasticsearchUri cf pe = Inr es) \<longleftrightarrow>
     isLocal cf \<or>
     getServiceCreds cf
       (if truthy (env_var pe ''ELASTICSEARCH_SERVICE_NAME'')
        then to_string (env_var pe ''ELASTICSEARCH_SERVICE_NAME'')
        else ''code_gov_elasticsearch'') \<noteq> None"
  by (auto simp: getElasticsearchUri_def Let_def split: option.splits)

lemma assign_host_returns_iff: "(\<exists>d. assign_host j h = Inr d) \<longleftrightarrow> j \<noteq> JsonNull"
  by (cases j) auto

lemma getSwaggerConf_returns_iff:
  "(\<exists>d. getSwaggerConf w p u = Inr d) \<longleftrightarrow>
     (\<exists>j. json_files w (path_join (project_dir w)
              (if truthy p then ''./swagger-prod.json'' else ''./swagger.json'')) = Some j \<and>
          j \<noteq> JsonNull)"
  using assign_host_returns_iff
  by (auto simp: getSwaggerConf_def readFileSync_def split: option.splits sum.splits)

lemma getConfig_returns_iff:
  "(\<exists>c. fst (getConfig arg w) = Inr c) \<longleftrightarrow>
     (\<exists>es. getElasticsearchUri (appEnv w) (process_env (loaded w)) = Inr es) \<and>
     (\<exists>doc. getSwaggerConf (loaded w) (JSBoolean (arg = Some ''prod'' \<or> arg = Some ''production''))
        (apiUrl_of (appEnv w) (process_env (loaded w)) (getPort (appEnv w) (process_env (loaded w))))
        = Inr doc)"
  (is "?L \<longleftrightarrow> ?E \<and> ?D")
proof
  assume ?L
  then obtain c where "getConfig arg w = (Inr c, snd (getConfig arg w))"
    by (metis prod.collapse)
  then have r: "getConfig arg w = (Inr c, loaded w)"
    by (simp add: getConfig_snd)
  show "?E \<and> ?D"
    using getConfig_fields(14,16) [OF r] by blast
next
  assume "?E \<and> ?D"
  then obtain es doc where
    es: "getElasticsearchUri (appEnv w) (process_env (loaded w)) = Inr es" and
    doc: "getSwaggerConf (loaded w) (JSBoolean (arg = Some ''prod'' \<or> arg = Some ''production''))
        (apiUrl_of (appEnv w) (process_env (loaded w)) (getPort (appEnv w) (process_env (loaded w))))
        = Inr doc"
    by blast
  have p: "(case arg of None \<Rightarrow> ''development'' | Some e \<Rightarrow> e) \<in> set [''prod'', ''production'']
           \<longleftrightarrow> arg = Some ''prod'' \<or> arg = Some ''production''"
    by (cases arg) auto
  show ?L
    unfolding getConfig_def Let_def loaded_def [symmetric] p es sum.case doc
    by simp
qed

text \<open>
  The production flag of every call, returning or not: the call returns under the
  condition of \<open>getConfig_returns_iff\<close>, and then the flag is the membership test.
\<close>

lemma isProd_of_call:
  "resolved isProd (getConfig arg w) =
     (if \<exists>c. fst (getConfig arg w) = Inr c
      then Some (Primitive (JSBoolean (arg = Some ''prod'' \<or> arg = Some ''production'')))
      else None)"
proof (cases "fst (getConfig arg w)")
  case (Inl e)
  then show ?thesis by (simp add: resolved_def)
next
  case (Inr c)
  then have "getConfig arg w = (Inr c, snd (getConfig arg w))"
    by (metis prod.collapse)
  from getConfig_fields(3) [OF this] Inr show ?thesis
    by (simp add: resolved_def)
qed

section \<open>The claims\<close>

text \<open>
  In the statements below, \<open>w'\<close> is the world a call leaves behind, so \<open>process_env w'\<close> is
  the environment as the rules read it: that of the process, with the variables of the
  \<^verbatim>\<open>.env\<close> file added in local mode (\<open>getConfig_fields\<close>, \<open>loaded_not_local\<close>,
  \<open>dotenv_config_keeps\<close>, \<open>dotenv_config_adds\<close>).
\<close>

text \<open>
  Claim C1: the resolver is meant to return a configuration for every environment name,
  also away from the local machine when no service of the looked-up name is bound. On
  the managed platform with no bound service (and both API documents in place) the call
  throws a TypeError instead: the lookup gives \<^verbatim>\<open>null\<close>, and its \<^verbatim>\<open>uri\<close> is read.
\<close>

theorem getConfig_no_service_throws:
  "getConfig (Some ''production'') (managed_world Map.empty no_service) =
     (Inl TypeError, managed_world Map.empty no_service)"
  by (simp add: run_defs)




text \<open>
  Claim C3: the metadata path is meant to be the remote location only when
  \<^verbatim>\<open>GET_REMOTE_METADATA\<close> is literally \<^verbatim>\<open>true\<close>. With \<^verbatim>\<open>GET_REMOTE_METADATA=false\<close> and a
  remote location set, the resolved toggle is \<^verbatim>\<open>false\<close> and the path is the remote
  location all the same.
\<close>

theorem AGENCY_ENDPOINTS_FILE_remote_with_toggle_off:
  "resolved GET_REMOTE_METADATA
     (getConfig None
        (local_world [''GET_REMOTE_METADATA'' \<mapsto> ''false'',
           ''REMOTE_METADATA_LOCATION'' \<mapsto> ''https://example.gov/agency_metadata.json'']))
     = Some (Primitive (JSBoolean False)) \<and>
   resolved AGENCY_ENDPOINTS_FILE
     (getConfig None
        (local_world [''GET_REMOTE_METADATA'' \<mapsto> ''false'',
           ''REMOTE_METADATA_LOCATION'' \<mapsto> ''https://example.gov/agency_metadata.json'']))
     = Some (Primitive (JSString ''https://example.gov/agency_metadata.json''))"
  by (simp add: run_defs)




text \<open>
  Claim C5: the production flag is true if and only if the environment name is exactly
  \<^verbatim>\<open>prod\<close> or exactly \<^verbatim>\<open>production\<close> (it is false as well when the name is left out and
  defaults to \<^verbatim>\<open>development\<close>). The flag does not decide whether the call returns
  (\<open>getConfig_returns_iff\<close>, \<open>isProd_of_call\<close>): on both deployments the call returns for
  \<^verbatim>\<open>prod\<close> and for \<^verbatim>\<open>production\<close> with the flag true, and for the other names with the flag
  false.
\<close>

theorem isProd_iff:
  assumes "getConfig arg w = (Inr c, w')"
  shows "isProd c = Primitive (JSBoolean (arg = Some ''prod'' \<or> arg = Some ''production''))"
  by (rule getConfig_fields(3) [OF assms])

theorem isProd_iff_witness:
  "resolved isProd (getConfig (Some ''prod'') (local_world Map.empty))
     = Some (Primitive (JSBoolean True)) \<and>
   resolved isProd (getConfig (Some ''production'') (local_world Map.empty))
     = Some (Primitive (JSBoolean True)) \<and>
   resolved isProd (getConfig (Some ''prod'') (managed_world Map.empty es_service))
     = Some (Primitive (JSBoolean True)) \<and>
   resolved isProd (getConfig (Some ''production'') (managed_world Map.empty es_service))
     = Some (Primitive (JSBoolean True)) \<and>
   resolved isProd (getConfig (Some ''Production'') (local_world Map.empty))
     = Some (Primitive (JSBoolean False)) \<and>
   resolved isProd (getConfig (Some []) (local_world Map.empty))
     = Some (Primitive (JSBoolean False)) \<and>
   resolved isProd (getConfig (Some ''staging'') (local_world Map.empty))
     = Some (Primitive (JSBoolean False)) \<and>
   resolved isProd (getConfig None (local_world Map.empty))
     = Some (Primitive (JSBoolean False))"
proof -
  let ?l = "local_world Map.empty"
  let ?m = "managed_world Map.empty es_service"
  have "\<exists>c w'. getConfig (Some ''prod'') ?l = (Inr c, w')"
    by (simp add: run_defs)
  then obtain c0 w0 where r0: "getConfig (Some ''prod'') ?l = (Inr c0, w0)"
    by blast
  have "\<exists>c w'. getConfig (Some ''production'') ?l = (Inr c, w')"
    by (simp add: run_defs)
  then obtain c1 w1 where r1: "getConfig (Some ''production'') ?l = (Inr c1, w1)"
    by blast
  have "\<exists>c w'. getConfig (Some ''prod'') ?m = (Inr c, w')"
    by (simp add: run_defs)
  then obtain c5 w5 where r5: "getConfig (Some ''prod'') ?m = (Inr c5, w5)"
    by blast
  have "\<exists>c w'. getConfig (Some ''production'') ?m = (Inr c, w')"
    by (simp add: run_defs)
  then obtain c6 w6 where r6: "getConfig (Some ''production'') ?m = (Inr c6, w6)"
    by blast
  have "\<exists>c w'. getConfig (Some ''Production'') ?l = (Inr c, w')"
    by (simp add: run_defs)
  then obtain c2 w2 where r2: "getConfig (Some ''Production'') ?l = (Inr c2, w2)"
    by blast
  have "\<exists>c w'. getConfig (Some []) ?l = (Inr c, w')"
    by (simp add: run_defs)
  then obtain c3 w3 where r3: "getConfig (Some []) ?l = (Inr c3, w3)"
    by blast
  have "\<exists>c w'. getConfig (Some ''staging'') ?l = (Inr c, w')"
    by (simp add: run_defs)
  then obtain c4 w4 where r4: "getConfig (Some ''staging'') ?l = (Inr c4, w4)"
    by blast
  have "\<exists>c w'. getConfig None ?l = (Inr c, w')"
    by (simp add: run_defs)
  then obtain c7 w7 where r7: "getConfig None ?l = (Inr c7, w7)"
    by blast
  show ?thesis
    using isProd_iff [OF r0] isProd_iff [OF r1] isProd_iff [OF r5] isProd_iff [OF r6]
      isProd_iff [OF r2] isProd_iff [OF r3] isProd_iff [OF r4] isProd_iff [OF r7]
    by (simp add: resolved_def r0 r1 r2 r3 r4 r5 r6 r7)
qed

text \<open>
  Claim C6: with \<^verbatim>\<open>PORT=5000\<close> in the environment the resolved port is meant to be the
  number 5000. It is the string \<^verbatim>\<open>5000\<close>: the variable is returned as it stands, whatever
  port the platform reports (here 8080).
\<close>

theorem PORT_from_environment_is_a_string:
  "resolved PORT (getConfig None (managed_world [''PORT'' \<mapsto> ''5000''] es_service))
   = Some (Primitive (JSString ''5000''))"
  by (simp add: run_defs)

text \<open>
  Claim C7: the list of allowed origins has exactly three entries: the two localhost
  origins built from the resolved port, and then \<^verbatim>\<open>https://api.data.gov\<close> when the
  production flag is true and \<^verbatim>\<open>*\<close> when it is false.
\<close>

theorem ALLOWED_DOMAINS_three:
  assumes "getConfig arg w = (Inr c, w')"
  shows "PORT c = Primitive (getPort (appEnv w) (process_env w')) \<and>
         ALLOWED_DOMAINS c =
           StringArray [''http://localhost:'' @ to_string (getPort (appEnv w) (process_env w')),
             ''http://127.0.0.1:'' @ to_string (getPort (appEnv w) (process_env w')),
             if isProd c = Primitive (JSBoolean True) then ''https://api.data.gov'' else ''*'']"
  using getConfig_fields(3,12,17) [OF assms] by simp

theorem ALLOWED_DOMAINS_three_witness:
  "resolved ALLOWED_DOMAINS (getConfig (Some ''staging'') (managed_world Map.empty es_service))
     = Some (StringArray [''http://localhost:8080'', ''http://127.0.0.1:8080'', ''*'']) \<and>
   resolved ALLOWED_DOMAINS (getConfig (Some ''prod'') (local_world [''PORT'' \<mapsto> ''5000'']))
     = Some (StringArray [''http://localhost:5000'', ''http://127.0.0.1:5000'',
         ''https://api.data.gov''])"
proof -
  let ?m = "managed_world Map.empty es_service"
  let ?l = "local_world [''PORT'' \<mapsto> ''5000'']"
  have "\<exists>c w'. getConfig (Some ''staging'') ?m = (Inr c, w')"
    by (simp add: run_defs)
  then obtain c1 w1 where r1: "getConfig (Some ''staging'') ?m = (Inr c1, w1)"
    by blast
  have e1: "w1 = ?m"
    using getConfig_fields(1) [OF r1] by (simp add: loaded_def managed_world_def)
  have "\<exists>c w'. getConfig (Some ''prod'') ?l = (Inr c, w')"
    by (simp add: run_defs)
  then obtain c2 w2 where r2: "getConfig (Some ''prod'') ?l = (Inr c2, w2)"
    by blast
  have e2: "process_env w2 ''PORT'' = Some ''5000''"
    using getConfig_fields(1) [OF r2] by (simp add: loaded_keeps local_world_def)
  have p1: "getPort (appEnv ?m) (process_env w1) = JSNumber (Finite 8080)"
    by (simp add: e1 getPort_def managed_world_def env_var_def)
  have p2: "getPort (appEnv ?l) (process_env w2) = JSString ''5000''"
    by (simp add: e2 getPort_def env_var_def)
  have i1: "isProd c1 = Primitive (JSBoolean False)"
    using getConfig_fields(3) [OF r1] by simp
  have i2: "isProd c2 = Primitive (JSBoolean True)"
    using getConfig_fields(3) [OF r2] by simp
  show ?thesis
    using ALLOWED_DOMAINS_three [OF r1] ALLOWED_DOMAINS_three [OF r2]
    by (simp add: resolved_def r1 r2 p1 p2 i1 i2 digit_char_def)
qed

text \<open>
  Claim C8, as amended: \<^verbatim>\<open>UPDATE_REPO_REGEX\<close> is the same regular expression in every
  record, and it accepts exactly the strings that contain \<^verbatim>\<open>1.0\<close>: the pattern is not
  anchored, its minor component is the literal 0, and the optional group never decides.
\<close>

theorem UPDATE_REPO_REGEX_accepts:
  assumes "getConfig arg w = (Inr c, w')"
  shows "UPDATE_REPO_REGEX c = RegExp update_repo_regex \<and>
         (\<forall>s. regex_test update_repo_regex s = (\<exists>p q. s = p @ ''1.0'' @ q))"
  using getConfig_fields(7) [OF assms] regex_test_update_repo_regex by simp

theorem UPDATE_REPO_REGEX_accepts_witness:
  "resolved UPDATE_REPO_REGEX (getConfig None (local_world Map.empty))
     = Some (RegExp update_repo_regex) \<and>
   regex_test update_repo_regex ''1.0.5''"
proof -
  have "\<exists>c w'. getConfig None (local_world Map.empty) = (Inr c, w')"
    by (simp add: run_defs)
  then obtain c w' where r: "getConfig None (local_world Map.empty) = (Inr c, w')"
    by blast
  have "''1.0.5'' = [] @ ''1.0'' @ ''.5''"
    by simp
  then have ex: "\<exists>p q. ''1.0.5'' = p @ ''1.0'' @ q"
    by blast
  have a: "UPDATE_REPO_REGEX c = RegExp update_repo_regex"
    using UPDATE_REPO_REGEX_accepts [OF r] by blast
  have b: "regex_test update_repo_regex ''1.0.5''"
    using UPDATE_REPO_REGEX_accepts [OF r] ex by blast
  show ?thesis
  proof (intro conjI)
    show "resolved UPDATE_REPO_REGEX (getConfig None (local_world Map.empty))
            = Some (RegExp update_repo_regex)"
      using a by (simp add: resolved_def r)
    show "regex_test update_repo_regex ''1.0.5''"
      by (rule b)
  qed
qed

text \<open>
  The claim as stated fails in both directions: \<^verbatim>\<open>21.0x\<close> is accepted although its major
  component is not 1 and a character follows, and \<^verbatim>\<open>1.2\<close>, of major version 1, is not.
\<close>

theorem UPDATE_REPO_REGEX_counterexample:
  "regex_test update_repo_regex ''21.0x'' \<and> \<not> spec_version_pattern ''21.0x'' \<and>
   spec_version_pattern ''1.2'' \<and> \<not> regex_test update_repo_regex ''1.2''"
  by (simp add: update_repo_regex_def spec_version_pattern_def is_digit_def)

text \<open>
  Claim C9: a second call with the same argument, in the world the first call left
  behind (same platform binding, same files, and the process environment as the first
  call left it), gives the same result as the first: the same configuration, or the same
  error, and the same world. In particular loading the \<^verbatim>\<open>.env\<close> file a second time changes
  nothing. (Two calls in one and the same world agree because \<open>getConfig\<close> is a function
  of its argument and the world.)
\<close>

theorem getConfig_twice:
  "getConfig arg (snd (getConfig arg w)) = getConfig arg w"
  by (simp only: getConfig_snd getConfig_loaded)



end
